theory Spec2Isabelle
  imports Main
begin

section \<open>The lazily resolved uname record of \<^verbatim>\<open>main.py\<close>\<close>

text \<open>
  The script defines a resolver for the processor name (\<^verbatim>\<open>_Processor\<close>), two
  variants of a named tuple whose sixth field \<^verbatim>\<open>processor\<close> is computed on first use
  and cached (\<^verbatim>\<open>uname_result\<close>, \<^verbatim>\<open>uname_result2\<close>), a dataclass wrapping one
  such tuple (\<^verbatim>\<open>UnameInfo\<close>) and a \<^verbatim>\<open>main\<close> that builds one and calls
  \<^verbatim>\<open>dataclasses.asdict\<close> on it.

  Python values that occur are strings; an exception that leaves a function is the
  \<open>Inl\<close> of its result; the external command and the per-instance cache are explicit
  state, passed in and returned.
\<close>

subsection \<open>Exceptions\<close>

datatype py_error = TypeError | IndexError | UnicodeDecodeError

subsection \<open>\<^verbatim>\<open>_unknown_as_blank\<close>\<close>

definition unknown_as_blank :: "string \<Rightarrow> string" where
  "unknown_as_blank val = (if val = ''unknown'' then '''' else val)"

subsection \<open>The host: \<^verbatim>\<open>sys.platform\<close> and the command \<^verbatim>\<open>uname -p\<close>\<close>

text \<open>
  \<^verbatim>\<open>subprocess.check_output(['uname', '-p'], stderr=DEVNULL, text=True)\<close> returns the
  text the command wrote, raises \<^verbatim>\<open>OSError\<close> when the command cannot be started
  (not found, no permission), raises \<^verbatim>\<open>CalledProcessError\<close> when it exits with a
  non-zero status, and, because of \<^verbatim>\<open>text=True\<close>, raises \<^verbatim>\<open>UnicodeDecodeError\<close>
  when the bytes the command wrote are not text in the locale's encoding
  (\<open>Undecodable\<close>). What the \<open>n\<close>-th run of the command does is a parameter of the
  host, and the host counts the runs.
\<close>

datatype proc_result = Output string | OSError | CalledProcessError | Undecodable

record world =
  sys_platform :: string
  uname_p :: "nat \<Rightarrow> proc_result"
  spawned :: nat

definition check_output :: "world \<Rightarrow> proc_result \<times> world" where
  "check_output w = (uname_p w (spawned w), w\<lparr>spawned := Suc (spawned w)\<rparr>)"

text \<open>
  \<^verbatim>\<open>str.strip()\<close> removes leading and trailing whitespace. A character here is a
  code point below 256; of these, the whitespace of \<^verbatim>\<open>str\<close> is tab, line feed,
  vertical tab, form feed, carriage return, the separators \<open>0x1C\<close> to \<open>0x1F\<close>, the
  space, next line (\<open>0x85\<close>) and the no-break space (\<open>0xA0\<close>).
\<close>

definition isspace :: "char \<Rightarrow> bool" where
  "isspace c = (c \<in> set [CHR 0x09, CHR 0x0A, CHR 0x0B, CHR 0x0C, CHR 0x0D,
                          CHR 0x1C, CHR 0x1D, CHR 0x1E, CHR 0x1F, CHR 0x20,
                          CHR 0x85, CHR 0xA0])"

definition strip :: "string \<Rightarrow> string" where
  "strip s = rev (dropWhile isspace (rev (dropWhile isspace s)))"

subsection \<open>\<^verbatim>\<open>_Processor\<close>\<close>

text \<open>
  \<^verbatim>\<open>from_subprocess\<close>: the \<^verbatim>\<open>try\<close> returns the stripped output; the handler
  catches \<^verbatim>\<open>OSError\<close> and \<^verbatim>\<open>CalledProcessError\<close> and does \<^verbatim>\<open>pass\<close>, so the
  function falls off its end and returns \<^verbatim>\<open>None\<close>; any other exception is not
  caught and leaves the function.
\<close>

definition from_subprocess :: "world \<Rightarrow> (py_error + string option) \<times> world" where
  "from_subprocess w =
     (case check_output w of
        (Output out, w') \<Rightarrow> (Inr (Some (strip out)), w')
      | (OSError, w') \<Rightarrow> (Inr None, w')
      | (CalledProcessError, w') \<Rightarrow> (Inr None, w')
      | (Undecodable, w') \<Rightarrow> (Inl UnicodeDecodeError, w'))"

text \<open>
  \<^verbatim>\<open>getattr(cls, f'get_{sys.platform}', cls.from_subprocess)\<close>: the class body defines
  \<^verbatim>\<open>get\<close> and \<^verbatim>\<open>from_subprocess\<close> only, and the names inherited from
  \<^verbatim>\<open>object\<close> all start with two underscores. The looked-up name starts with
  \<^verbatim>\<open>get_\<close>, so of the class's attributes only functions of the resolver's type are
  listed in the table.
\<close>

definition Processor_getattr ::
  "string \<Rightarrow> (world \<Rightarrow> (py_error + string option) \<times> world) \<Rightarrow>
   (world \<Rightarrow> (py_error + string option) \<times> world)" where
  "Processor_getattr name dflt =
     (case map_of [(''from_subprocess'', from_subprocess)] name of
        Some f \<Rightarrow> f
      | None \<Rightarrow> dflt)"

text \<open>\<^verbatim>\<open>x or ''\<close>: \<^verbatim>\<open>None\<close> and the empty string are false.\<close>

definition or_blank :: "string option \<Rightarrow> string" where
  "or_blank x = (case x of None \<Rightarrow> '''' | Some s \<Rightarrow> (if s = '''' then '''' else s))"

definition Processor_get :: "world \<Rightarrow> (py_error + string) \<times> world" where
  "Processor_get w =
     (let func = Processor_getattr (''get_'' @ sys_platform w) from_subprocess in
      case func w of
        (Inl e, w') \<Rightarrow> (Inl e, w')
      | (Inr r, w') \<Rightarrow> (Inr (or_blank r), w'))"

subsection \<open>The named tuple \<^verbatim>\<open>uname_result_base\<close> and its two subclasses\<close>

datatype cls = Uname_result | Uname_result2

text \<open>
  An instance is its class, the five items of the underlying tuple and the entry
  \<^verbatim>\<open>'processor'\<close> of its \<^verbatim>\<open>__dict__\<close>, where \<^verbatim>\<open>functools.cached_property\<close>
  keeps the value once computed.
\<close>

record uname =
  cls_of :: cls
  system :: string
  node :: string
  release :: string
  version :: string
  machine :: string
  dict_processor :: "string option"

text \<open>
  \<^verbatim>\<open>_fields\<close>: \<^verbatim>\<open>uname_result\<close> inherits the five names of the named tuple,
  \<^verbatim>\<open>uname_result2\<close> overrides the attribute with six names.
\<close>

fun fields :: "cls \<Rightarrow> string list" where
  "fields Uname_result = [''system'', ''node'', ''release'', ''version'', ''machine'']"
| "fields Uname_result2 =
     [''system'', ''node'', ''release'', ''version'', ''machine'', ''processor'']"

text \<open>
  \<^verbatim>\<open>__new__(cls, system, node, release, version, machine)\<close>, inherited by both classes
  from the named tuple: called with any other number of arguments it raises
  \<^verbatim>\<open>TypeError\<close>. It stores the arguments as they are.
\<close>

definition new :: "cls \<Rightarrow> string list \<Rightarrow> py_error + uname" where
  "new c args =
     (case args of
        [a1, a2, a3, a4, a5] \<Rightarrow>
          Inr \<lparr>cls_of = c, system = a1, node = a2, release = a3, version = a4,
               machine = a5, dict_processor = None\<rparr>
      | _ \<Rightarrow> Inl TypeError)"

text \<open>\<^verbatim>\<open>super().__iter__()\<close>: the items of the underlying tuple.\<close>

definition base_iter :: "uname \<Rightarrow> string list" where
  "base_iter self = [system self, node self, release self, version self, machine self]"

text \<open>
  \<^verbatim>\<open>processor\<close>: the decorated function, the same in both classes, and what
  \<^verbatim>\<open>functools.cached_property\<close> makes of it: when the instance's \<^verbatim>\<open>__dict__\<close>
  has the entry it is returned; otherwise the function runs, and its value is stored
  when it returns one. When the function raises, nothing is stored and the exception
  reaches the reader.
\<close>

definition processor_func :: "world \<Rightarrow> (py_error + string) \<times> world" where
  "processor_func w =
     (case Processor_get w of
        (Inl e, w') \<Rightarrow> (Inl e, w')
      | (Inr r, w') \<Rightarrow> (Inr (unknown_as_blank r), w'))"

definition processor :: "uname \<Rightarrow> world \<Rightarrow> (py_error + string) \<times> uname \<times> world" where
  "processor self w =
     (case dict_processor self of
        Some val \<Rightarrow> (Inr val, self, w)
      | None \<Rightarrow>
          (case processor_func w of
             (Inl e, w') \<Rightarrow> (Inl e, self, w')
           | (Inr val, w') \<Rightarrow> (Inr val, self\<lparr>dict_processor := Some val\<rparr>, w')))"

text \<open>
  \<^verbatim>\<open>__iter__\<close> (the same in both classes): the one-element tuple
  \<^verbatim>\<open>(self.processor,)\<close> is built when \<^verbatim>\<open>__iter__\<close> is called, so an exception
  of the accessor leaves \<^verbatim>\<open>__iter__\<close>. \<^verbatim>\<open>tuple(self)\<close> on an instance of a tuple
  subclass goes through \<^verbatim>\<open>__iter__\<close>, so this list is also the value of
  \<^verbatim>\<open>tuple(self)\<close> and of \<^verbatim>\<open>tuple(iter(self))\<close>.
\<close>

definition iter :: "uname \<Rightarrow> world \<Rightarrow> (py_error + string list) \<times> uname \<times> world" where
  "iter self w =
     (case processor self w of
        (Inl e, self', w') \<Rightarrow> (Inl e, self', w')
      | (Inr p, self', w') \<Rightarrow> (Inr (base_iter self @ [p]), self', w'))"

text \<open>Indexing a tuple with an integer: negative keys count from the end.\<close>

definition tuple_getitem :: "'a list \<Rightarrow> int \<Rightarrow> py_error + 'a" where
  "tuple_getitem t key =
     (let n = int (length t); j = (if key < 0 then n + key else key)
      in if 0 \<le> j \<and> j < n then Inr (t ! nat j) else Inl IndexError)"

text \<open>
  \<^verbatim>\<open>__getitem__\<close> (the same in both classes), for an integer key: \<^verbatim>\<open>tuple(self)\<close>
  is evaluated first, then indexed.
\<close>

definition getitem :: "uname \<Rightarrow> int \<Rightarrow> world \<Rightarrow> (py_error + string) \<times> uname \<times> world" where
  "getitem self key w =
     (case iter self w of
        (Inl e, self', w') \<Rightarrow> (Inl e, self', w')
      | (Inr t, self', w') \<Rightarrow> (tuple_getitem t key, self', w'))"

text \<open>\<^verbatim>\<open>__len__\<close> (the same in both classes).\<close>

definition len :: "uname \<Rightarrow> world \<Rightarrow> (py_error + nat) \<times> uname \<times> world" where
  "len self w =
     (case iter self w of
        (Inl e, self', w') \<Rightarrow> (Inl e, self', w')
      | (Inr t, self', w') \<Rightarrow> (Inr (length t), self', w'))"

text \<open>
  \<^verbatim>\<open>_make\<close> of \<^verbatim>\<open>uname_result\<close> and of \<^verbatim>\<open>uname_result2\<close>, called on the class
  itself. \<^verbatim>\<open>cls.__new__(cls, *iterable)\<close> raises when the iterable does not have five
  items; \<^verbatim>\<open>len(result)\<close> is the \<^verbatim>\<open>__len__\<close> above.
\<close>

definition uname_result_make :: "string list \<Rightarrow> world \<Rightarrow> (py_error + uname) \<times> world" where
  "uname_result_make iterable w =
     (let num_fields = length (fields Uname_result) in
      case new Uname_result iterable of
        Inl e \<Rightarrow> (Inl e, w)
      | Inr result \<Rightarrow>
          (case len result w of
             (Inl e, result', w') \<Rightarrow> (Inl e, w')
           | (Inr n, result', w') \<Rightarrow>
               if n \<noteq> num_fields + 1 then (Inl TypeError, w') else (Inr result', w')))"

definition uname_result2_make :: "string list \<Rightarrow> world \<Rightarrow> (py_error + uname) \<times> world" where
  "uname_result2_make iterable w =
     (let num_fields = length (fields Uname_result2) - 1 in
      case new Uname_result2 iterable of
        Inl e \<Rightarrow> (Inl e, w)
      | Inr result \<Rightarrow>
          (case len result w of
             (Inl e, result', w') \<Rightarrow> (Inl e, w')
           | (Inr n, result', w') \<Rightarrow>
               if n \<noteq> num_fields + 1 then (Inl TypeError, w') else (Inr result', w')))"

text \<open>
  \<^verbatim>\<open>__reduce__\<close>: both classes name \<^verbatim>\<open>uname_result\<close> as the constructor;
  \<^verbatim>\<open>self._fields\<close> is the attribute of the instance's class.
\<close>

definition uname_result_reduce ::
  "uname \<Rightarrow> world \<Rightarrow> (py_error + cls \<times> string list) \<times> uname \<times> world" where
  "uname_result_reduce self w =
     (case iter self w of
        (Inl e, self', w') \<Rightarrow> (Inl e, self', w')
      | (Inr t, self', w') \<Rightarrow>
          (Inr (Uname_result, take (length (fields (cls_of self))) t), self', w'))"

definition uname_result2_reduce ::
  "uname \<Rightarrow> world \<Rightarrow> (py_error + cls \<times> string list) \<times> uname \<times> world" where
  "uname_result2_reduce self w =
     (case iter self w of
        (Inl e, self', w') \<Rightarrow> (Inl e, self', w')
      | (Inr t, self', w') \<Rightarrow>
          (Inr (Uname_result, take (length (fields (cls_of self)) - 1) t), self', w'))"

text \<open>Method lookup on an instance: \<^verbatim>\<open>self.__reduce__()\<close>.\<close>

definition reduce :: "uname \<Rightarrow> world \<Rightarrow> (py_error + cls \<times> string list) \<times> uname \<times> world" where
  "reduce self w =
     (case cls_of self of
        Uname_result \<Rightarrow> uname_result_reduce self w
      | Uname_result2 \<Rightarrow> uname_result2_reduce self w)"

text \<open>
  \<^verbatim>\<open>_asdict\<close>, inherited by both classes from the named tuple:
  \<^verbatim>\<open>dict(zip(self._fields, self))\<close>. The dictionary is an association list in
  insertion order.
\<close>

definition asdict_namedtuple ::
  "uname \<Rightarrow> world \<Rightarrow> (py_error + (string \<times> string) list) \<times> uname \<times> world" where
  "asdict_namedtuple self w =
     (case iter self w of
        (Inl e, self', w') \<Rightarrow> (Inl e, self', w')
      | (Inr t, self', w') \<Rightarrow> (Inr (zip (fields (cls_of self)) t), self', w'))"

text \<open>Reading one of the five named fields, \<^verbatim>\<open>self.system\<close> to \<^verbatim>\<open>self.machine\<close>.\<close>

datatype field = System | Node | Release | Version | Machine

fun getattr_field :: "uname \<Rightarrow> field \<Rightarrow> string" where
  "getattr_field self System = system self"
| "getattr_field self Node = node self"
| "getattr_field self Release = release self"
| "getattr_field self Version = version self"
| "getattr_field self Machine = machine self"

subsection \<open>\<^verbatim>\<open>UnameInfo\<close>, \<^verbatim>\<open>dataclasses.asdict\<close> and \<^verbatim>\<open>main\<close>\<close>

datatype UnameInfo = UnameInfo (uname: uname)

text \<open>
  \<^verbatim>\<open>dataclasses.asdict\<close> walks the fields of the dataclass instance. For a value that
  is a tuple with an attribute \<^verbatim>\<open>_fields\<close> the standard library computes
  \<^verbatim>\<open>type(obj)(*[_asdict_inner(v, dict_factory) for v in obj])\<close>: it iterates the
  instance, copies each item (a string is its own copy) and calls the instance's class
  with the items as positional arguments.
\<close>

definition asdict_inner_namedtuple ::
  "uname \<Rightarrow> world \<Rightarrow> (py_error + uname) \<times> uname \<times> world" where
  "asdict_inner_namedtuple obj w =
     (case iter obj w of
        (Inl e, obj', w') \<Rightarrow> (Inl e, obj', w')
      | (Inr t, obj', w') \<Rightarrow> (new (cls_of obj) t, obj', w'))"

definition asdict ::
  "UnameInfo \<Rightarrow> world \<Rightarrow> (py_error + (string \<times> uname) list) \<times> UnameInfo \<times> world" where
  "asdict obj w =
     (case asdict_inner_namedtuple (uname obj) w of
        (Inl e, u', w') \<Rightarrow> (Inl e, UnameInfo u', w')
      | (Inr val, u', w') \<Rightarrow> (Inr [(''uname'', val)], UnameInfo u', w'))"

text \<open>
  \<^verbatim>\<open>main\<close>, without its two \<^verbatim>\<open>print\<close> calls: the value is the dictionary that
  \<^verbatim>\<open>asdict\<close> returns, or the exception that ends the run.
\<close>

definition main_vals :: "string list" where
  "main_vals =
     [''Darwin'', ''CHARLESs-MBP.attlocal.net'', ''21.5.0'',
      ''Darwin Kernel Version 21.5.0: Tue Apr 26 21:08:22 PDT 2022; root:xnu-8020.121.3~4/RELEASE_X86_64'',
      ''x86_64'']"

definition main :: "world \<Rightarrow> (py_error + (string \<times> uname) list) \<times> world" where
  "main w =
     (case new Uname_result2 (map unknown_as_blank main_vals) of
        Inl e \<Rightarrow> (Inl e, w)
      | Inr uname_cache \<Rightarrow>
          (case asdict (UnameInfo uname_cache) w of
             (r, s_info, w') \<Rightarrow> (r, w')))"

subsection \<open>A caller: any sequence of reads of one instance\<close>

text \<open>
  The life of an instance, seen from a caller, is a sequence of the operations below;
  each returns what the caller observes (a value, or the exception raised), the instance
  and the host. A caller that catches the exception goes on to its next read.
\<close>

datatype call =
    Read_processor
  | Read_field field
  | Call_len
  | Call_iter
  | Call_getitem int
  | Call_reduce

datatype observed =
    Got_str string
  | Got_len nat
  | Got_seq "string list"
  | Got_reduced "cls \<times> string list"
  | Raised py_error

definition observe :: "('a \<Rightarrow> observed) \<Rightarrow> py_error + 'a \<Rightarrow> observed" where
  "observe got r = (case r of Inl e \<Rightarrow> Raised e | Inr v \<Rightarrow> got v)"

fun perform :: "call \<Rightarrow> uname \<Rightarrow> world \<Rightarrow> observed \<times> uname \<times> world" where
  "perform Read_processor self w =
     (case processor self w of (r, self', w') \<Rightarrow> (observe Got_str r, self', w'))"
| "perform (Read_field f) self w = (Got_str (getattr_field self f), self, w)"
| "perform Call_len self w =
     (case len self w of (r, self', w') \<Rightarrow> (observe Got_len r, self', w'))"
| "perform Call_iter self w =
     (case iter self w of (r, self', w') \<Rightarrow> (observe Got_seq r, self', w'))"
| "perform (Call_getitem key) self w =
     (case getitem self key w of (r, self', w') \<Rightarrow> (observe Got_str r, self', w'))"
| "perform Call_reduce self w =
     (case reduce self w of (r, self', w') \<Rightarrow> (observe Got_reduced r, self', w'))"

fun run :: "call list \<Rightarrow> uname \<Rightarrow> world \<Rightarrow> observed list \<times> uname \<times> world" where
  "run [] self w = ([], self, w)"
| "run (c # cs) self w =
     (case perform c self w of
        (ob, self', w') \<Rightarrow>
          (case run cs self' w' of
             (obs, self'', w'') \<Rightarrow> (ob # obs, self'', w'')))"

subsection \<open>Example hosts and inputs\<close>

text \<open>
  A host where \<^verbatim>\<open>uname -p\<close> always prints \<^verbatim>\<open>i386\<close> and a newline, a host where
  the answer changes after the first run, a host where the command cannot be started at
  first and exits with an error afterwards, a host where it prints \<^verbatim>\<open>unknown\<close>, a
  host where its first output is not decodable text and the later ones are
  \<^verbatim>\<open>i386\<close>, and the five eager values of the end-to-end scenario.
\<close>

definition host_i386 :: world where
  "host_i386 =
     \<lparr>sys_platform = ''darwin'', uname_p = (\<lambda>n. Output (''i386'' @ [CHR 0x0A])),
      spawned = 0\<rparr>"

definition host_changing :: world where
  "host_changing =
     \<lparr>sys_platform = ''linux'',
      uname_p = (\<lambda>n. if n = 0 then Output (''i386'' @ [CHR 0x0A])
                       else Output (''arm'' @ [CHR 0x0A])),
      spawned = 0\<rparr>"



definition host_undecodable :: world where
  "host_undecodable =
     \<lparr>sys_platform = ''linux'',
      uname_p = (\<lambda>n. if n = 0 then Undecodable else Output (''i386'' @ [CHR 0x0A])),
      spawned = 0\<rparr>"

definition scenario_vals :: "string list" where
  "scenario_vals =
     [''Darwin'', ''host.local'', ''21.5.0'', ''Darwin Kernel Version 21.5.0 ...'', ''x86_64'']"

definition scenario_uname :: "cls \<Rightarrow> uname" where
  "scenario_uname c =
     \<lparr>cls_of = c, system = ''Darwin'', node = ''host.local'', release = ''21.5.0'',
      version = ''Darwin Kernel Version 21.5.0 ...'', machine = ''x86_64'',
      dict_processor = None\<rparr>"

section \<open>Properties\<close>

subsection \<open>What each operation computes\<close>

lemma from_subprocess_world: "snd (from_subprocess w) = w\<lparr>spawned := Suc (spawned w)\<rparr>"
  by (simp add: from_subprocess_def check_output_def split: proc_result.splits)

lemma Processor_get_eq:
  "Processor_get w =
     (map_sum id or_blank (fst (from_subprocess w)), w\<lparr>spawned := Suc (spawned w)\<rparr>)"
  by (simp add: Processor_get_def Processor_getattr_def from_subprocess_def check_output_def
        split: proc_result.splits)

lemma processor_func_eq:
  "processor_func w =
     (map_sum id unknown_as_blank (fst (Processor_get w)), w\<lparr>spawned := Suc (spawned w)\<rparr>)"
  by (simp add: processor_func_def Processor_get_eq split: sum.splits)

lemma processor_cached:
  "dict_processor self = Some v \<Longrightarrow> processor self w = (Inr v, self, w)"
  by (simp add: processor_def)

lemma processor_fresh:
  "dict_processor self = None \<Longrightarrow>
   processor self w =
     (fst (processor_func w),
      (case fst (processor_func w) of
         Inl e \<Rightarrow> self
       | Inr v \<Rightarrow> self\<lparr>dict_processor := Some v\<rparr>),
      w\<lparr>spawned := Suc (spawned w)\<rparr>)"
  by (simp add: processor_def processor_func_eq split: sum.splits prod.splits)

lemma processor_fresh_value:
  "dict_processor self = None \<Longrightarrow> fst (processor_func w) = Inr v \<Longrightarrow>
   processor self w =
     (Inr v, self\<lparr>dict_processor := Some v\<rparr>, w\<lparr>spawned := Suc (spawned w)\<rparr>)"
  by (simp add: processor_fresh)

lemma processor_fresh_raise:
  "dict_processor self = None \<Longrightarrow> fst (processor_func w) = Inl e \<Longrightarrow>
   processor self w = (Inl e, self, w\<lparr>spawned := Suc (spawned w)\<rparr>)"
  by (simp add: processor_fresh)

lemma iter_eq:
  "iter self w =
     (map_sum id (\<lambda>p. base_iter self @ [p]) (fst (processor self w)), snd (processor self w))"
  by (simp add: iter_def split: prod.splits sum.splits)

lemma len_eq:
  "len self w = (map_sum id (\<lambda>p. 6) (fst (processor self w)), snd (processor self w))"
  by (cases "fst (processor self w)")
     (simp_all add: len_def iter_eq base_iter_def split: prod.splits)

lemma getitem_eq:
  "getitem self key w =
     ((case fst (processor self w) of
         Inl e \<Rightarrow> Inl e
       | Inr p \<Rightarrow> tuple_getitem (base_iter self @ [p]) key),
      snd (processor self w))"
  by (cases "fst (processor self w)")
     (simp_all add: getitem_def iter_eq split: prod.splits)

lemma reduce_eq:
  "reduce self w =
     (map_sum id (\<lambda>p. (Uname_result, base_iter self)) (fst (processor self w)),
      snd (processor self w))"
  by (cases "cls_of self"; cases "fst (processor self w)")
     (simp_all add: reduce_def uname_result_reduce_def uname_result2_reduce_def iter_eq
        base_iter_def split: prod.splits)

lemma new_five:
  "new c [a1, a2, a3, a4, a5] =
     Inr \<lparr>cls_of = c, system = a1, node = a2, release = a3, version = a4, machine = a5,
          dict_processor = None\<rparr>"
  by (simp add: new_def)

lemma new_Inr_iff:
  "new c args = Inr u \<longleftrightarrow>
     length args = 5 \<and> base_iter u = args \<and> cls_of u = c \<and> dict_processor u = None"
  by (cases u) (auto simp add: new_def base_iter_def split: list.splits)

lemma new_Inl_iff: "new c args = Inl e \<longleftrightarrow> length args \<noteq> 5 \<and> e = TypeError"
  by (auto simp add: new_def split: list.splits)

lemma new_fresh: "new c args = Inr u \<Longrightarrow> dict_processor u = None"
  by (simp add: new_Inr_iff)

lemma make_eq:
  "uname_result_make xs w =
     (case new Uname_result xs of
        Inl e \<Rightarrow> (Inl e, w)
      | Inr result \<Rightarrow>
          (map_sum id (\<lambda>v. result\<lparr>dict_processor := Some v\<rparr>) (fst (processor_func w)),
           w\<lparr>spawned := Suc (spawned w)\<rparr>))"
proof (cases "new Uname_result xs")
  case (Inl e)
  then show ?thesis by (simp add: uname_result_make_def)
next
  case (Inr result)
  then have "dict_processor result = None" by (rule new_fresh)
  with Inr show ?thesis
    by (cases "fst (processor_func w)")
       (simp_all add: uname_result_make_def len_eq processor_fresh)
qed

lemma make2_eq:
  "uname_result2_make xs w =
     (case new Uname_result2 xs of
        Inl e \<Rightarrow> (Inl e, w)
      | Inr result \<Rightarrow>
          (map_sum id (\<lambda>v. result\<lparr>dict_processor := Some v\<rparr>) (fst (processor_func w)),
           w\<lparr>spawned := Suc (spawned w)\<rparr>))"
proof (cases "new Uname_result2 xs")
  case (Inl e)
  then show ?thesis by (simp add: uname_result2_make_def)
next
  case (Inr result)
  then have "dict_processor result = None" by (rule new_fresh)
  with Inr show ?thesis
    by (cases "fst (processor_func w)")
       (simp_all add: uname_result2_make_def len_eq processor_fresh)
qed

text \<open>Evaluating the resolver on the example hosts.\<close>

lemmas host_eval =
  processor_func_eq Processor_get_eq from_subprocess_def check_output_def strip_def
  isspace_def or_blank_def unknown_as_blank_def

subsection \<open>Reads of an instance whose value is cached, or whose resolver returns\<close>

lemma perform_cached:
  assumes "dict_processor self = Some v"
  shows "snd (perform c self w) = (self, w)"
    and "c = Read_processor \<Longrightarrow> fst (perform c self w) = Got_str v"
    and "c = Call_iter \<Longrightarrow> fst (perform c self w) = Got_seq (base_iter self @ [v])"
  using assms
  by (cases c; simp add: processor_cached len_eq iter_eq getitem_eq reduce_eq observe_def)+

lemma run_length: "length (fst (run cs self w)) = length cs"
proof (induction cs arbitrary: self w)
  case Nil
  then show ?case by simp
next
  case (Cons c cs)
  obtain ob self' w' where p: "perform c self w = (ob, self', w')"
    by (cases "perform c self w") auto
  obtain obs self'' w'' where r: "run cs self' w' = (obs, self'', w'')"
    by (cases "run cs self' w'") auto
  from Cons.IH [of self' w'] p r show ?case by simp
qed

lemma run_cached:
  assumes "dict_processor self = Some v"
  shows "snd (run cs self w) = (self, w) \<and>
         (\<forall>i<length cs.
            (cs ! i = Read_processor \<longrightarrow> fst (run cs self w) ! i = Got_str v) \<and>
            (cs ! i = Call_iter \<longrightarrow> fst (run cs self w) ! i = Got_seq (base_iter self @ [v])))"
  using assms
proof (induction cs)
  case Nil
  then show ?case by simp
next
  case (Cons c cs)
  obtain ob where p: "perform c self w = (ob, self, w)"
    using perform_cached(1) [OF Cons.prems, of c w] by (cases "perform c self w") simp
  obtain obs where r: "run cs self w = (obs, self, w)"
    using Cons.IH [OF Cons.prems] by (cases "run cs self w") simp
  have ob1: "c = Read_processor \<Longrightarrow> ob = Got_str v"
    using perform_cached(2) [OF Cons.prems, of c w] p by simp
  have ob2: "c = Call_iter \<Longrightarrow> ob = Got_seq (base_iter self @ [v])"
    using perform_cached(3) [OF Cons.prems, of c w] p by simp
  show ?case
    using Cons.IH [OF Cons.prems] p r ob1 ob2
    by (auto simp add: nth_Cons split: nat.splits)
qed

lemma perform_fresh:
  assumes "dict_processor self = None" and "fst (processor_func w) = Inr v"
    and "\<forall>f. c \<noteq> Read_field f"
  shows "snd (perform c self w) =
           (self\<lparr>dict_processor := Some v\<rparr>, w\<lparr>spawned := Suc (spawned w)\<rparr>)"
    and "c = Read_processor \<Longrightarrow> fst (perform c self w) = Got_str v"
    and "c = Call_iter \<Longrightarrow> fst (perform c self w) = Got_seq (base_iter self @ [v])"
  using assms
  by (cases c; simp add: processor_fresh_value len_eq iter_eq getitem_eq reduce_eq observe_def)+

lemma run_fresh:
  assumes "dict_processor self = None" and "fst (processor_func w) = Inr v"
  shows "(snd (run cs self w) = (self, w) \<or>
          snd (run cs self w) =
            (self\<lparr>dict_processor := Some v\<rparr>, w\<lparr>spawned := Suc (spawned w)\<rparr>)) \<and>
         (\<forall>i<length cs.
            (cs ! i = Read_processor \<longrightarrow> fst (run cs self w) ! i = Got_str v) \<and>
            (cs ! i = Call_iter \<longrightarrow> fst (run cs self w) ! i = Got_seq (base_iter self @ [v])))"
  using assms
proof (induction cs)
  case Nil
  then show ?case by simp
next
  case (Cons c cs)
  show ?case
  proof (cases "\<exists>f. c = Read_field f")
    case True
    then obtain f where c: "c = Read_field f" by blast
    show ?thesis
      using Cons.IH [OF Cons.prems] c
      by (auto simp add: nth_Cons split: nat.splits prod.splits)
  next
    case False
    let ?self' = "self\<lparr>dict_processor := Some v\<rparr>"
    let ?w' = "w\<lparr>spawned := Suc (spawned w)\<rparr>"
    from False have nf: "\<forall>f. c \<noteq> Read_field f" by blast
    obtain ob where p: "perform c self w = (ob, ?self', ?w')"
      using perform_fresh(1) [OF Cons.prems nf] by (cases "perform c self w") simp
    have ob1: "c = Read_processor \<Longrightarrow> ob = Got_str v"
      using perform_fresh(2) [OF Cons.prems nf] p by simp
    have ob2: "c = Call_iter \<Longrightarrow> ob = Got_seq (base_iter self @ [v])"
      using perform_fresh(3) [OF Cons.prems nf] p by simp
    have cached: "dict_processor ?self' = Some v" by simp
    have bi: "base_iter ?self' = base_iter self" by (simp add: base_iter_def)
    obtain obs where r: "run cs ?self' ?w' = (obs, ?self', ?w')"
      using run_cached [OF cached, of cs ?w'] by (cases "run cs ?self' ?w'") simp
    show ?thesis
      using run_cached [OF cached, of cs ?w'] p r ob1 ob2 bi
      by (auto simp add: nth_Cons split: nat.splits)
  qed
qed

subsection \<open>The class of an instance only matters to \<^verbatim>\<open>_fields\<close>\<close>

lemma processor_cls:
  "processor (u\<lparr>cls_of := c\<rparr>) w =
     (case processor u w of (v, u', w') \<Rightarrow> (v, u'\<lparr>cls_of := c\<rparr>, w'))"
proof (cases "dict_processor u")
  case None
  then show ?thesis
    by (cases "fst (processor_func w)") (simp_all add: processor_fresh)
next
  case (Some v)
  then show ?thesis by (simp add: processor_cached)
qed

lemma base_iter_cls: "base_iter (u\<lparr>cls_of := c\<rparr>) = base_iter u"
  by (simp add: base_iter_def)

lemma perform_cls:
  "perform k (u\<lparr>cls_of := c\<rparr>) w =
     (case perform k u w of (ob, u', w') \<Rightarrow> (ob, u'\<lparr>cls_of := c\<rparr>, w'))"
proof (cases k)
  case (Read_field f)
  then show ?thesis by (cases f) simp_all
qed (simp_all add: len_eq iter_eq getitem_eq reduce_eq processor_cls base_iter_cls
       split: prod.splits sum.splits)

lemma run_cls:
  "run cs (u\<lparr>cls_of := c\<rparr>) w =
     (case run cs u w of (obs, u', w') \<Rightarrow> (obs, u'\<lparr>cls_of := c\<rparr>, w'))"
proof (induction cs arbitrary: u w)
  case Nil
  then show ?case by simp
next
  case (Cons k cs)
  obtain ob u' w' where p: "perform k u w = (ob, u', w')"
    by (cases "perform k u w") auto
  have p': "perform k (u\<lparr>cls_of := c\<rparr>) w = (ob, u'\<lparr>cls_of := c\<rparr>, w')"
    using p by (simp add: perform_cls)
  show ?case
    using Cons.IH [of u' w'] p p' by (simp split: prod.splits)
qed

subsection \<open>\<^verbatim>\<open>dataclasses.asdict\<close> on a wrapped instance\<close>

text \<open>
  When the instance iterates, it iterates to six items, and its class takes five
  arguments: rebuilding it from its items raises \<^verbatim>\<open>TypeError\<close>. When the accessor
  raises, that exception comes first. So \<^verbatim>\<open>asdict\<close> raises for every instance and
  host, and \<^verbatim>\<open>main\<close> never reaches its last \<^verbatim>\<open>print\<close>.
\<close>

lemma asdict_raises:
  "fst (asdict (UnameInfo u) w) =
     (case fst (processor u w) of Inl e \<Rightarrow> Inl e | Inr p \<Rightarrow> Inl TypeError)"
  by (simp add: asdict_def asdict_inner_namedtuple_def iter_eq base_iter_def new_def
        split: prod.splits sum.splits)

lemma main_raises:
  "fst (main w) = (case fst (processor_func w) of Inl e \<Rightarrow> Inl e | Inr p \<Rightarrow> Inl TypeError)"
  by (simp add: main_def main_vals_def new_five asdict_def asdict_inner_namedtuple_def iter_eq
        processor_fresh base_iter_def new_def split: prod.splits sum.splits)

section \<open>The claims\<close>

text \<open>
  Claim C1. For the \<^verbatim>\<open>uname_result2\<close> built from the scenario's five eager fields on
  a host whose resolver returns \<^verbatim>\<open>i386\<close>, iteration returns exactly the six values;
  converting the record to a field mapping as the entry point does, by
  \<^verbatim>\<open>dataclasses.asdict\<close> on the \<^verbatim>\<open>UnameInfo\<close> that wraps it, should then yield
  a mapping. The code does the first and fails at the second: \<^verbatim>\<open>asdict\<close> raises
  \<^verbatim>\<open>TypeError\<close> on the scenario's record, and \<^verbatim>\<open>main\<close> ends with that exception
  on this host.
\<close>

theorem scenario_asdict_raises:
  "new Uname_result2 scenario_vals = Inr (scenario_uname Uname_result2) \<and>
   fst (processor_func host_i386) = Inr ''i386'' \<and>
   fst (iter (scenario_uname Uname_result2) host_i386) =
     Inr [''Darwin'', ''host.local'', ''21.5.0'', ''Darwin Kernel Version 21.5.0 ...'',
          ''x86_64'', ''i386''] \<and>
   fst (asdict (UnameInfo (scenario_uname Uname_result2)) host_i386) = Inl TypeError \<and>
   fst (main host_i386) = Inl TypeError"
  by (simp add: scenario_vals_def scenario_uname_def new_five asdict_def main_def main_vals_def
        asdict_inner_namedtuple_def iter_eq base_iter_def new_def host_i386_def processor_fresh
        host_eval split: prod.splits)

text \<open>
  Claim C2, as the code has it. The constructor of either class stores its five arguments
  unchanged. A caller that maps \<^verbatim>\<open>_unknown_as_blank\<close> over the five values before
  passing them, as \<^verbatim>\<open>main\<close> does, gets an instance in which every value that was
  \<^verbatim>\<open>unknown\<close> is the empty string and the others are as given.
\<close>

theorem caller_normalizes_before_construction:
  "(\<exists>u. new c [a1, a2, a3, a4, a5] = Inr u \<and> base_iter u = [a1, a2, a3, a4, a5]) \<and>
   (\<exists>u. new c (map unknown_as_blank [a1, a2, a3, a4, a5]) = Inr u \<and>
        base_iter u = map (\<lambda>v. if v = ''unknown'' then '''' else v) [a1, a2, a3, a4, a5] \<and>
        ''unknown'' \<notin> set (base_iter u))"
  by (simp add: new_five base_iter_def unknown_as_blank_def)

text \<open>
  Claim C2 as stated fails: constructed with \<^verbatim>\<open>unknown\<close> as an argument, an instance
  of either class holds the word \<^verbatim>\<open>unknown\<close> in that field.
\<close>

theorem constructor_keeps_unknown_counterexample:
  "map_sum id base_iter
     (new Uname_result [''unknown'', ''host.local'', ''21.5.0'', ''unknown'', ''x86_64'']) =
     Inr [''unknown'', ''host.local'', ''21.5.0'', ''unknown'', ''x86_64''] \<and>
   map_sum id system
     (new Uname_result2 [''unknown'', ''host.local'', ''21.5.0'', ''unknown'', ''x86_64'']) =
     Inr ''unknown''"
  by (simp add: new_def base_iter_def)

text \<open>
  Claim C3, as the code has it. On the same arguments and host the two classes agree on
  construction and on \<^verbatim>\<open>_make\<close> (both raise, or both return instances that differ in
  their class only), and on every sequence of reads of the processor field, the named
  fields, length, iteration, indexing and \<^verbatim>\<open>__reduce__\<close>: the same observations and
  the same host afterwards.
\<close>

theorem variants_agree_on_listed_operations:
  "(case (new Uname_result args, new Uname_result2 args) of
      (Inl e1, Inl e2) \<Rightarrow> e1 = e2
    | (Inr u1, Inr u2) \<Rightarrow>
        u2 = u1\<lparr>cls_of := Uname_result2\<rparr> \<and>
        fst (run cs u1 w) = fst (run cs u2 w) \<and>
        snd (snd (run cs u1 w)) = snd (snd (run cs u2 w))
    | _ \<Rightarrow> False) \<and>
   (case (uname_result_make args w, uname_result2_make args w) of
      ((Inl e1, w1), (Inl e2, w2)) \<Rightarrow> e1 = e2 \<and> w1 = w2
    | ((Inr m1, w1), (Inr m2, w2)) \<Rightarrow>
        w1 = w2 \<and> m2 = m1\<lparr>cls_of := Uname_result2\<rparr> \<and>
        fst (run cs m1 w1) = fst (run cs m2 w2) \<and>
        snd (snd (run cs m1 w1)) = snd (snd (run cs m2 w2))
    | _ \<Rightarrow> False)"
proof (cases "length args = 5")
  case False
  then have "new Uname_result args = Inl TypeError" "new Uname_result2 args = Inl TypeError"
    by (simp_all add: new_Inl_iff)
  then show ?thesis by (simp add: make_eq make2_eq)
next
  case True
  then obtain a1 a2 a3 a4 a5 where args: "args = [a1, a2, a3, a4, a5]"
    by (auto simp add: length_Suc_conv eval_nat_numeral)
  define u1 where "u1 = \<lparr>cls_of = Uname_result, system = a1, node = a2, release = a3,
    version = a4, machine = a5, dict_processor = None\<rparr>"
  have n1: "new Uname_result args = Inr u1"
    and n2: "new Uname_result2 args = Inr (u1\<lparr>cls_of := Uname_result2\<rparr>)"
    by (simp_all add: args new_five u1_def)
  have m: "(u1\<lparr>dict_processor := Some v\<rparr>)\<lparr>cls_of := Uname_result2\<rparr> =
           (u1\<lparr>cls_of := Uname_result2\<rparr>)\<lparr>dict_processor := Some v\<rparr>" for v
    by simp
  show ?thesis
    by (cases "fst (processor_func w)")
       (simp_all add: n1 n2 make_eq make2_eq run_cls m [symmetric] split: prod.splits)
qed

theorem variants_agree_on_listed_operations_witness:
  "new Uname_result scenario_vals = Inr (scenario_uname Uname_result) \<and>
   new Uname_result2 scenario_vals = Inr (scenario_uname Uname_result2) \<and>
   fst (run [Call_reduce, Call_getitem 5, Call_len, Read_processor]
          (scenario_uname Uname_result) host_changing) =
     fst (run [Call_reduce, Call_getitem 5, Call_len, Read_processor]
            (scenario_uname Uname_result2) host_changing) \<and>
   fst (uname_result_make [''a'', ''b''] host_changing) = Inl TypeError \<and>
   fst (uname_result2_make [''a'', ''b''] host_changing) = Inl TypeError"
  using variants_agree_on_listed_operations
    [where args = scenario_vals and w = host_changing
       and cs = "[Call_reduce, Call_getitem 5, Call_len, Read_processor]"]
    variants_agree_on_listed_operations
    [where args = "[''a'', ''b'']" and w = host_changing and cs = "[]"]
  by (simp add: scenario_vals_def scenario_uname_def new_five new_def make_eq make2_eq)

text \<open>
  Claim C3 as stated fails: a caller tells the two classes apart by \<^verbatim>\<open>_fields\<close>, and
  by \<^verbatim>\<open>_asdict\<close>, which on instances built from the same five values has five entries
  for \<^verbatim>\<open>uname_result\<close> and six for \<^verbatim>\<open>uname_result2\<close>.
\<close>

theorem variants_differ_in_fields_counterexample:
  "fields Uname_result \<noteq> fields Uname_result2 \<and>
   fst (asdict_namedtuple (scenario_uname Uname_result) host_i386) =
     Inr [(''system'', ''Darwin''), (''node'', ''host.local''), (''release'', ''21.5.0''),
          (''version'', ''Darwin Kernel Version 21.5.0 ...''), (''machine'', ''x86_64'')] \<and>
   fst (asdict_namedtuple (scenario_uname Uname_result2) host_i386) =
     Inr [(''system'', ''Darwin''), (''node'', ''host.local''), (''release'', ''21.5.0''),
          (''version'', ''Darwin Kernel Version 21.5.0 ...''), (''machine'', ''x86_64''),
          (''processor'', ''i386'')] \<and>
   new Uname_result scenario_vals = Inr (scenario_uname Uname_result) \<and>
   new Uname_result2 scenario_vals = Inr (scenario_uname Uname_result2)"
  by (simp add: asdict_namedtuple_def iter_eq base_iter_def scenario_uname_def scenario_vals_def
        new_five host_i386_def processor_fresh host_eval split: prod.splits)

text \<open>
  Claim C4, as the code has it. For every five strings, constructing an instance (of
  either class) from them and iterating it runs the resolver once: the body of
  \<^verbatim>\<open>processor\<close>, that is \<^verbatim>\<open>_unknown_as_blank(_Processor.get())\<close>, on the host as it
  is then. When that call returns a value, iteration yields the five values in the
  declared order followed by that value; when it raises, iteration raises the same
  exception.
\<close>

theorem create_then_sequence:
  "\<exists>u. new c [a1, a2, a3, a4, a5] = Inr u \<and>
        fst (iter u w) =
          (case fst (processor_func w) of
             Inl e \<Rightarrow> Inl e
           | Inr v \<Rightarrow> Inr [a1, a2, a3, a4, a5, v]) \<and>
        fst (processor_func w) = map_sum id unknown_as_blank (fst (Processor_get w)) \<and>
        spawned (snd (snd (iter u w))) = spawned w + 1"
  by (cases "fst (processor_func w)")
     (simp_all add: new_five iter_eq processor_fresh base_iter_def processor_func_eq)

text \<open>
  Claim C4 as stated fails: on a host where the command's output is not decodable text,
  \<^verbatim>\<open>check_output\<close> raises an exception that \<^verbatim>\<open>from_subprocess\<close> does not catch,
  and iterating the instance built from the scenario's five values raises it instead of
  yielding six values.
\<close>

theorem sequence_raises_counterexample:
  "new Uname_result scenario_vals = Inr (scenario_uname Uname_result) \<and>
   fst (iter (scenario_uname Uname_result) host_undecodable) = Inl UnicodeDecodeError"
  by (simp add: scenario_vals_def scenario_uname_def new_five iter_eq processor_fresh
        host_undecodable_def host_eval)

text \<open>
  Claim C5, as the code has it. For an instance whose processor value is cached, or whose
  resolver call on the host as it is returns a value, any sequence of reads (the
  processor field, a named field, \<^verbatim>\<open>len\<close>, iteration, indexing, \<^verbatim>\<open>__reduce__\<close>)
  runs the command at most once, and not at all when the value is cached; every read of
  \<^verbatim>\<open>processor\<close> returns one and the same value, and every iteration ends with it. A
  resolver call that raises stores nothing: the instance is as before and the command
  has been run.
\<close>

theorem resolver_at_most_once:
  "((case dict_processor self of Some v' \<Rightarrow> Inr v' | None \<Rightarrow> fst (processor_func w)) = Inr v \<longrightarrow>
      spawned (snd (snd (run cs self w))) \<le> spawned w + 1 \<and>
      (dict_processor self \<noteq> None \<longrightarrow> spawned (snd (snd (run cs self w))) = spawned w) \<and>
      (\<forall>i<length cs.
         (cs ! i = Read_processor \<longrightarrow> fst (run cs self w) ! i = Got_str v) \<and>
         (cs ! i = Call_iter \<longrightarrow> fst (run cs self w) ! i = Got_seq (base_iter self @ [v])))) \<and>
   (dict_processor self = None \<and> fst (processor_func w) = Inl e \<longrightarrow>
      processor self w = (Inl e, self, w\<lparr>spawned := Suc (spawned w)\<rparr>))"
proof (cases "dict_processor self")
  case None
  show ?thesis
  proof (cases "fst (processor_func w)")
    case (Inl e')
    with None show ?thesis by (simp add: processor_fresh_raise)
  next
    case (Inr v')
    from run_fresh [OF None Inr, of cs] None Inr show ?thesis by auto
  qed
next
  case (Some v')
  from run_cached [OF Some, of cs w] Some show ?thesis by auto
qed

theorem resolver_at_most_once_witness:
  "fst (processor_func host_changing) = Inr ''i386'' \<and>
   spawned (snd (snd (run [Read_field System, Call_len, Read_processor, Call_iter,
                          Read_processor, Call_getitem 0, Call_reduce, Read_processor]
                       (scenario_uname Uname_result) host_changing))) = 1 \<and>
   fst (run [Read_field System, Call_len, Read_processor, Call_iter,
             Read_processor, Call_getitem 0, Call_reduce, Read_processor]
          (scenario_uname Uname_result) host_changing) ! 2 = Got_str ''i386'' \<and>
   fst (run [Read_field System, Call_len, Read_processor, Call_iter,
             Read_processor, Call_getitem 0, Call_reduce, Read_processor]
          (scenario_uname Uname_result) host_changing) ! 7 = Got_str ''i386'' \<and>
   spawned (snd (snd (run [Read_processor, Call_len]
                       ((scenario_uname Uname_result2)\<lparr>dict_processor := Some ''arm''\<rparr>)
                       host_changing))) = 0 \<and>
   fst (processor_func host_undecodable) = Inl UnicodeDecodeError \<and>
   processor (scenario_uname Uname_result) host_undecodable =
     (Inl UnicodeDecodeError, scenario_uname Uname_result, host_undecodable\<lparr>spawned := 1\<rparr>)"
  using resolver_at_most_once
    [where cs = "[Read_field System, Call_len, Read_processor, Call_iter,
                  Read_processor, Call_getitem 0, Call_reduce, Read_processor]"
       and self = "scenario_uname Uname_result" and w = host_changing and v = "''i386''"]
    resolver_at_most_once
    [where cs = "[Read_processor, Call_len]" and w = host_changing and v = "''arm''"
       and self = "(scenario_uname Uname_result2)\<lparr>dict_processor := Some ''arm''\<rparr>"]
    resolver_at_most_once
    [where self = "scenario_uname Uname_result" and w = host_undecodable
       and e = UnicodeDecodeError]
  by (simp add: scenario_uname_def host_changing_def host_undecodable_def processor_def
        len_eq iter_eq getitem_eq reduce_eq base_iter_def observe_def host_eval)

text \<open>
  Claim C5 as stated fails: on a host where the first output of the command is not
  decodable text, the first read of \<^verbatim>\<open>processor\<close> raises and caches nothing, the
  second read runs the command again and returns a value: two runs for one instance,
  and two reads with different outcomes.
\<close>

theorem resolver_runs_twice_counterexample:
  "dict_processor (scenario_uname Uname_result) = None \<and>
   run [Read_processor, Read_processor] (scenario_uname Uname_result) host_undecodable =
     ([Raised UnicodeDecodeError, Got_str ''i386''],
      (scenario_uname Uname_result)\<lparr>dict_processor := Some ''i386''\<rparr>,
      host_undecodable\<lparr>spawned := 2\<rparr>)"
  by (simp add: scenario_uname_def host_undecodable_def processor_def observe_def host_eval)

text \<open>
  Claim C6, as the code has it. Whenever \<^verbatim>\<open>__reduce__\<close> of either class returns, the
  reduced form is the constructor \<^verbatim>\<open>uname_result\<close> with exactly the five eager
  fields, without the processor value, and applying that constructor to those fields
  gives an instance with the same five fields and an empty cache, so its processor is
  resolved anew. It returns whenever the processor value is cached, and it raises
  exactly the exceptions that reading \<^verbatim>\<open>processor\<close> raises.
\<close>

theorem reduced_form_roundtrip:
  "(fst (reduce self w) = Inr (c, args) \<longrightarrow>
      c = Uname_result \<and> args = base_iter self \<and> length args = 5 \<and>
      (\<exists>u. new c args = Inr u \<and> base_iter u = base_iter self \<and> dict_processor u = None)) \<and>
   (fst (reduce self w) = Inl e \<longleftrightarrow> fst (processor self w) = Inl e) \<and>
   (dict_processor self \<noteq> None \<longrightarrow> fst (reduce self w) = Inr (Uname_result, base_iter self))"
proof -
  have returned: "fst (reduce self w) = Inr (c, args) \<longrightarrow>
      c = Uname_result \<and> args = base_iter self \<and> length args = 5 \<and>
      (\<exists>u. new c args = Inr u \<and> base_iter u = base_iter self \<and> dict_processor u = None)"
    by (cases "fst (processor self w)") (auto simp add: reduce_eq base_iter_def new_five)
  have raised: "fst (reduce self w) = Inl e \<longleftrightarrow> fst (processor self w) = Inl e"
    by (cases "fst (processor self w)") (simp_all add: reduce_eq)
  have cached: "dict_processor self \<noteq> None \<longrightarrow>
      fst (reduce self w) = Inr (Uname_result, base_iter self)"
    by (cases "dict_processor self") (simp_all add: reduce_eq processor_cached)
  from returned raised cached show ?thesis by blast
qed

theorem reduced_form_roundtrip_witness:
  "fst (reduce (scenario_uname Uname_result2) host_i386) = Inr (Uname_result, scenario_vals) \<and>
   new Uname_result scenario_vals = Inr (scenario_uname Uname_result) \<and>
   fst (reduce ((scenario_uname Uname_result2)\<lparr>dict_processor := Some ''arm''\<rparr>)
          host_undecodable) = Inr (Uname_result, scenario_vals)"
  using reduced_form_roundtrip
    [where self = "scenario_uname Uname_result2" and w = host_i386 and c = Uname_result
       and args = scenario_vals]
    reduced_form_roundtrip
    [where self = "(scenario_uname Uname_result2)\<lparr>dict_processor := Some ''arm''\<rparr>"
       and w = host_undecodable]
  by (simp add: reduce_eq base_iter_def scenario_uname_def scenario_vals_def host_i386_def
        new_five processor_fresh host_eval)

text \<open>
  Claim C6 as stated fails: on a fresh instance, on a host where the command's output
  is not decodable text, \<^verbatim>\<open>__reduce__\<close> raises and there is no reduced form.
\<close>

theorem reduce_raises_counterexample:
  "dict_processor (scenario_uname Uname_result2) = None \<and>
   fst (reduce (scenario_uname Uname_result2) host_undecodable) = Inl UnicodeDecodeError"
  by (simp add: reduce_eq scenario_uname_def host_undecodable_def processor_fresh host_eval)

text \<open>
  The copy resolves on its own: on the host whose answer changes after the first run, the
  original holds \<^verbatim>\<open>i386\<close> and the instance rebuilt from its reduced form reads
  \<^verbatim>\<open>arm\<close>.
\<close>

lemma reduced_copy_resolves_anew:
  "(case reduce (scenario_uname Uname_result2) host_changing of
      (Inr (c, args), self', w') \<Rightarrow>
        (case new c args of
           Inl e \<Rightarrow> False
         | Inr copy \<Rightarrow>
             dict_processor self' = Some ''i386'' \<and> cls_of copy = Uname_result \<and>
             fst (processor copy w') = Inr ''arm'')
    | (Inl e, self', w') \<Rightarrow> False)"
  by (simp add: reduce_eq base_iter_def scenario_uname_def host_changing_def new_five
        processor_fresh host_eval)

text \<open>
  Claim C7, as the code has it. For every instance, whenever iteration returns it yields
  exactly six elements and whenever \<^verbatim>\<open>len\<close> returns it returns 6; both return when
  reading \<^verbatim>\<open>processor\<close> returns (always when the value is cached), and both raise the
  exception that reading \<^verbatim>\<open>processor\<close> raises.
\<close>

theorem field_count_is_six:
  "(fst (iter self w) = Inr t \<longrightarrow> length t = 6) \<and>
   (fst (len self w) = Inr n \<longrightarrow> n = 6) \<and>
   (fst (processor self w) = Inr p \<longrightarrow>
      fst (len self w) = Inr 6 \<and> fst (iter self w) = Inr (base_iter self @ [p]) \<and>
      length (base_iter self @ [p]) = 6) \<and>
   (fst (processor self w) = Inl e \<longrightarrow> fst (len self w) = Inl e \<and> fst (iter self w) = Inl e)"
  by (cases "fst (processor self w)") (auto simp add: iter_eq len_eq base_iter_def)

theorem field_count_is_six_witness:
  "fst (processor (scenario_uname Uname_result) host_i386) = Inr ''i386'' \<and>
   fst (len (scenario_uname Uname_result) host_i386) = Inr 6 \<and>
   fst (iter (scenario_uname Uname_result) host_i386) = Inr (scenario_vals @ [''i386'']) \<and>
   fst (processor (scenario_uname Uname_result) host_undecodable) = Inl UnicodeDecodeError"
  using field_count_is_six
    [where self = "scenario_uname Uname_result" and w = host_i386 and p = "''i386''"
       and n = 6 and t = "scenario_vals @ [''i386'']"]
    field_count_is_six
    [where self = "scenario_uname Uname_result" and w = host_undecodable
       and e = UnicodeDecodeError]
  by (simp add: scenario_uname_def scenario_vals_def host_i386_def host_undecodable_def
        base_iter_def processor_fresh host_eval)

text \<open>
  Claim C7 as stated fails: on a fresh instance, on a host where the command's output
  is not decodable text, \<^verbatim>\<open>len\<close> raises instead of returning 6.
\<close>

theorem len_raises_counterexample:
  "dict_processor (scenario_uname Uname_result) = None \<and>
   fst (len (scenario_uname Uname_result) host_undecodable) = Inl UnicodeDecodeError"
  by (simp add: len_eq scenario_uname_def host_undecodable_def processor_fresh host_eval)

text \<open>
  Claim C8, as the code has it. When reading \<^verbatim>\<open>processor\<close> returns a value, indexing
  is indexing the six-element view: key 5 and key -1 give that value, a key that is 6 or
  more or less than -6 raises \<^verbatim>\<open>IndexError\<close>, and every key from -6 to 5 gives the
  item of the view at that position. When reading \<^verbatim>\<open>processor\<close> raises, indexing
  raises that exception for every key.
\<close>

theorem getitem_full_view:
  "(fst (processor self w) = Inr p \<longrightarrow>
      fst (getitem self 5 w) = Inr p \<and>
      fst (getitem self (- 1) w) = Inr p \<and>
      (6 \<le> key \<or> key < - 6 \<longrightarrow> fst (getitem self key w) = Inl IndexError) \<and>
      (- 6 \<le> key \<and> key < 6 \<longrightarrow>
         fst (getitem self key w) =
           Inr ((base_iter self @ [p]) ! nat (if key < 0 then 6 + key else key)))) \<and>
   (fst (processor self w) = Inl e \<longrightarrow> fst (getitem self key w) = Inl e)"
  by (cases "fst (processor self w)")
     (auto simp add: getitem_eq tuple_getitem_def base_iter_def Let_def)

theorem getitem_full_view_witness:
  "fst (processor (scenario_uname Uname_result2) host_i386) = Inr ''i386'' \<and>
   fst (getitem (scenario_uname Uname_result2) 6 host_i386) = Inl IndexError \<and>
   fst (getitem (scenario_uname Uname_result2) (- 7) host_i386) = Inl IndexError \<and>
   fst (getitem (scenario_uname Uname_result2) (- 6) host_i386) = Inr ''Darwin'' \<and>
   fst (getitem (scenario_uname Uname_result2) 5 host_i386) = Inr ''i386'' \<and>
   fst (processor (scenario_uname Uname_result2) host_undecodable) = Inl UnicodeDecodeError"
  using getitem_full_view
    [where self = "scenario_uname Uname_result2" and w = host_i386 and key = 6
       and p = "''i386''"]
    getitem_full_view
    [where self = "scenario_uname Uname_result2" and w = host_i386 and key = "- 7"
       and p = "''i386''"]
    getitem_full_view
    [where self = "scenario_uname Uname_result2" and w = host_i386 and key = "- 6"
       and p = "''i386''"]
    getitem_full_view
    [where self = "scenario_uname Uname_result2" and w = host_undecodable and key = 5
       and e = UnicodeDecodeError]
  by (simp add: base_iter_def scenario_uname_def host_i386_def host_undecodable_def
        processor_fresh host_eval)

text \<open>
  Claim C8 as stated fails: on a fresh instance, on a host where the command's output
  is not decodable text, key 6 raises \<^verbatim>\<open>UnicodeDecodeError\<close>, not \<^verbatim>\<open>IndexError\<close>,
  and key 5 raises too.
\<close>

theorem getitem_raises_counterexample:
  "dict_processor (scenario_uname Uname_result2) = None \<and>
   fst (getitem (scenario_uname Uname_result2) 6 host_undecodable) = Inl UnicodeDecodeError \<and>
   fst (getitem (scenario_uname Uname_result2) 5 host_undecodable) = Inl UnicodeDecodeError"
  by (simp add: getitem_eq scenario_uname_def host_undecodable_def processor_fresh host_eval)



text \<open>
  Claim C10. \<^verbatim>\<open>_make\<close> of either class, called with five items, runs the resolver
  once before it returns or raises; when it returns an instance, the instance's cache
  holds the resolved value. \<^verbatim>\<open>__reduce__\<close> on an instance whose cache is empty runs
  the resolver once, and when it returns the cache holds the resolved value.
\<close>

theorem make_and_reduce_force_resolution:
  "(uname_result_make xs w = (Inr u, w') \<longrightarrow>
      fst (processor_func w) = Inr v \<longrightarrow>
      dict_processor u = Some v \<and> spawned w' = Suc (spawned w)) \<and>
   (uname_result2_make xs w = (Inr u, w') \<longrightarrow>
      fst (processor_func w) = Inr v \<longrightarrow>
      dict_processor u = Some v \<and> spawned w' = Suc (spawned w)) \<and>
   (uname_result_make xs w = (Inr u, w') \<or> uname_result2_make xs w = (Inr u, w') \<longrightarrow>
      (\<exists>v'. fst (processor_func w) = Inr v')) \<and>
   (length xs = 5 \<longrightarrow>
      spawned (snd (uname_result_make xs w)) = Suc (spawned w) \<and>
      spawned (snd (uname_result2_make xs w)) = Suc (spawned w)) \<and>
   (dict_processor self = None \<longrightarrow>
      spawned (snd (snd (reduce self w))) = Suc (spawned w) \<and>
      (fst (reduce self w) = Inr r \<longrightarrow>
         (\<exists>v'. fst (processor_func w) = Inr v' \<and>
               dict_processor (fst (snd (reduce self w))) = Some v')))"
proof -
  have five: "length xs = 5 \<Longrightarrow> \<exists>r1 r2. new Uname_result xs = Inr r1 \<and> new Uname_result2 xs = Inr r2"
    by (cases "new Uname_result xs"; cases "new Uname_result2 xs") (auto simp add: new_Inl_iff)
  show ?thesis
    using five
    by (cases "fst (processor_func w)")
       (auto simp add: make_eq make2_eq reduce_eq processor_fresh split: sum.splits)
qed

theorem make_and_reduce_force_resolution_witness:
  "uname_result_make scenario_vals host_i386 =
     (Inr ((scenario_uname Uname_result)\<lparr>dict_processor := Some ''i386''\<rparr>),
      host_i386\<lparr>spawned := 1\<rparr>) \<and>
   uname_result2_make scenario_vals host_i386 =
     (Inr ((scenario_uname Uname_result2)\<lparr>dict_processor := Some ''i386''\<rparr>),
      host_i386\<lparr>spawned := 1\<rparr>) \<and>
   fst (processor_func host_i386) = Inr ''i386'' \<and>
   length scenario_vals = 5 \<and>
   dict_processor (scenario_uname Uname_result2) = None \<and>
   fst (reduce (scenario_uname Uname_result2) host_i386) = Inr (Uname_result, scenario_vals) \<and>
   dict_processor (fst (snd (reduce (scenario_uname Uname_result2) host_i386))) = Some ''i386'' \<and>
   spawned (snd (snd (reduce (scenario_uname Uname_result2) host_i386))) = 1 \<and>
   uname_result_make scenario_vals host_undecodable =
     (Inl UnicodeDecodeError, host_undecodable\<lparr>spawned := 1\<rparr>)"
  using make_and_reduce_force_resolution
    [where xs = scenario_vals and w = host_i386 and w' = "host_i386\<lparr>spawned := 1\<rparr>"
       and u = "(scenario_uname Uname_result)\<lparr>dict_processor := Some ''i386''\<rparr>"
       and v = "''i386''" and self = "scenario_uname Uname_result2"
       and r = "(Uname_result, scenario_vals)"]
    make_and_reduce_force_resolution
    [where xs = scenario_vals and w = host_i386 and w' = "host_i386\<lparr>spawned := 1\<rparr>"
       and u = "(scenario_uname Uname_result2)\<lparr>dict_processor := Some ''i386''\<rparr>"
       and v = "''i386''" and self = "scenario_uname Uname_result2"
       and r = "(Uname_result, scenario_vals)"]
    make_and_reduce_force_resolution
    [where xs = scenario_vals and w = host_undecodable and self = "scenario_uname Uname_result2"]
  by (simp add: make_eq make2_eq new_five scenario_vals_def scenario_uname_def host_i386_def
        host_undecodable_def reduce_eq base_iter_def processor_fresh host_eval)

end
